theory Spec2Isabelle
  imports Main "HOL-Library.Sublist"
begin

section \<open>ChromeRecovery: the embedding of recover.py\<close>

text \<open>
  The program reads three kinds of files of a Chrome profile folder (the Bookmarks JSON
  document, the History SQLite store, four SNSS session files) and writes two HTML
  documents. Exceptions are values of \<open>error + 'a\<close>; the file system and everything the
  program does to the outside (files opened, copied, unlinked, written, messages printed,
  dialogs shown) are carried in a \<open>world\<close> that every effectful function takes and returns.
  Python strings are modelled as \<open>string\<close>, one \<open>char\<close> per character.
\<close>

subsection \<open>Exceptions, files and the outside world\<close>

datatype error =
    ImportError | OSError | JSONDecodeError | AttributeError | TypeError
  | OverflowError | DatabaseError | DecodeError

type_synonym path = string
type_synonym bytes = string

text \<open>A directory entry: \<open>Unreadable\<close> exists but \<open>open\<close> raises on it
  (a directory, or no permission); \<open>Readable b\<close> is a regular file with contents \<open>b\<close>.\<close>

datatype dirent = Unreadable | Readable bytes

datatype event =
    EvOpen path
  | EvCopy path path
  | EvConnect path
  | EvUnlink path
  | EvWrite path string
  | EvStderr string error
  | EvAlert string string string
  | EvReveal path

record world =
  fs :: "path \<rightharpoonup> dirent"
  trace :: "event list"

definition log_event :: "event \<Rightarrow> world \<Rightarrow> world" where
  "log_event e w = w\<lparr>trace := trace w @ [e]\<rparr>"

text \<open>\<open>profile_path / name\<close> of pathlib, on paths already in normal form.\<close>

definition path_join :: "path \<Rightarrow> string \<Rightarrow> path" where
  "path_join p name = p @ ''/'' @ name"

definition path_exists :: "world \<Rightarrow> path \<Rightarrow> bool" where
  "path_exists w p = (fs w p \<noteq> None)"

subsection \<open>Values read from the files\<close>

text \<open>What \<open>json.load\<close> returns. \<open>JNull\<close> is Python's \<open>None\<close>; a \<open>JObj\<close> lists the
  items of the dict in insertion order (non-integer numbers are not modelled).\<close>

datatype json =
    JNull | JBool bool | JNum int | JStr string
  | JArr "json list" | JObj "(string \<times> json) list"

text \<open>A column value of a row fetched by sqlite3 (REAL and BLOB values are not modelled).\<close>

datatype sql_value = SqlNull | SqlInt int | SqlText string

type_synonym row = "sql_value \<times> sql_value \<times> sql_value"

text \<open>The records the vendored SNSS reader yields when a session file is iterated.\<close>

datatype entry = NavigationEntry string "string option" | OtherCommand

datatype SnssFileType = Session | Tab

text \<open>
  The libraries the program calls and whose code is not part of it, as functions
  of the bytes they are given:
  \<^item> \<open>json_load\<close>: \<open>json.load\<close> on the text of a file;
  \<open>sqlite_query\<close>: \<open>sqlite3.connect\<close>, the SELECT with its LIMIT and \<open>fetchall\<close> on a store;
  \<^item> \<open>snss_import\<close>: whether the vendored reader can be imported;
  \<open>snss_read\<close>: the entries that iterating an \<open>SnssFile\<close> yields, and the exception
  that ends the iteration early, if any;
  \<^item> \<open>py_repr\<close>: what \<open>str\<close> gives for a list or a dict.
\<close>

record ext =
  json_load :: "bytes \<Rightarrow> error + json"
  sqlite_query :: "bytes \<Rightarrow> nat \<Rightarrow> error + row list"
  snss_import :: bool
  snss_read :: "SnssFileType \<Rightarrow> bytes \<Rightarrow> entry list \<times> error option"
  py_repr :: "json \<Rightarrow> string"

subsection \<open>Python's \<open>str\<close>, truth values and \<open>join\<close>\<close>

fun str_nat :: "nat \<Rightarrow> string" where
  "str_nat n =
     (if n < 10 then [''0123456789'' ! n]
      else str_nat (n div 10) @ [''0123456789'' ! (n mod 10)])"

declare str_nat.simps [simp del]

definition str_int :: "int \<Rightarrow> string" where
  "str_int i = (if i < 0 then ''-'' @ str_nat (nat (- i)) else str_nat (nat i))"

fun json_str :: "ext \<Rightarrow> json \<Rightarrow> string" where
  "json_str x (JStr s) = s"
| "json_str x JNull = ''None''"
| "json_str x (JBool b) = (if b then ''True'' else ''False'')"
| "json_str x (JNum i) = str_int i"
| "json_str x v = py_repr x v"

fun json_truthy :: "json \<Rightarrow> bool" where
  "json_truthy JNull = False"
| "json_truthy (JBool b) = b"
| "json_truthy (JNum i) = (i \<noteq> 0)"
| "json_truthy (JStr s) = (s \<noteq> [])"
| "json_truthy (JArr xs) = (xs \<noteq> [])"
| "json_truthy (JObj kvs) = (kvs \<noteq> [])"

fun sql_str :: "sql_value \<Rightarrow> string" where
  "sql_str SqlNull = ''None''"
| "sql_str (SqlInt i) = str_int i"
| "sql_str (SqlText s) = s"

fun sql_truthy :: "sql_value \<Rightarrow> bool" where
  "sql_truthy SqlNull = False"
| "sql_truthy (SqlInt i) = (i \<noteq> 0)"
| "sql_truthy (SqlText s) = (s \<noteq> [])"

text \<open>\<open>sep.join(parts)\<close>.\<close>

fun join :: "string \<Rightarrow> string list \<Rightarrow> string" where
  "join sep [] = []"
| "join sep [p] = p"
| "join sep (p # q # ps) = p @ sep @ join sep (q # ps)"

text \<open>\<open>d.get(key, default)\<close> on the items of a dict.\<close>

definition dict_get :: "(string \<times> json) list \<Rightarrow> string \<Rightarrow> json \<Rightarrow> json" where
  "dict_get kvs k d = (case map_of kvs k of None \<Rightarrow> d | Some v \<Rightarrow> v)"

subsection \<open>Validation\<close>

definition EXPECTED_FILES :: "string list" where
  "EXPECTED_FILES = [''Bookmarks'', ''History'']"

definition validate_profile :: "world \<Rightarrow> path \<Rightarrow> bool \<times> string list" where
  "validate_profile w profile_path =
     (let missing = filter (\<lambda>f. \<not> path_exists w (path_join profile_path f)) EXPECTED_FILES
      in (length missing = 0, missing))"

subsection \<open>Tabs extraction\<close>

text \<open>The body of the loop over the entries of one session file: \<open>tabs\<close> and \<open>seen_urls\<close>
  are the state.\<close>

fun scan_entries ::
  "entry list \<Rightarrow> (string \<times> string) list \<times> string set \<Rightarrow> (string \<times> string) list \<times> string set"
where
  "scan_entries [] st = st"
| "scan_entries (OtherCommand # es) st = scan_entries es st"
| "scan_entries (NavigationEntry url title # es) (tabs, seen_urls) =
     (let title' = (case title of None \<Rightarrow> [] | Some t \<Rightarrow> t) in
      if url \<noteq> [] \<and> url \<notin> seen_urls \<and> \<not> prefix ''chrome://'' url
      then scan_entries es (tabs @ [(url, title')], insert url seen_urls)
      else scan_entries es (tabs, seen_urls))"

definition session_files :: "(string \<times> SnssFileType) list" where
  "session_files =
     [(''Current Session'', Session), (''Last Session'', Session),
      (''Current Tabs'', Tab), (''Last Tabs'', Tab)]"

text \<open>The loop over the candidate files. A missing file is skipped; a file that cannot be
  opened, or whose iteration raises, is reported on stderr and the loop goes on, keeping
  what was collected before the exception.\<close>

fun scan_files ::
  "ext \<Rightarrow> path \<Rightarrow> (string \<times> SnssFileType) list \<Rightarrow>
   world \<times> (string \<times> string) list \<times> string set \<Rightarrow>
   world \<times> (string \<times> string) list \<times> string set"
where
  "scan_files x profile_path [] st = st"
| "scan_files x profile_path ((filename, file_type) # rest) (w, st) =
     (let filepath = path_join profile_path filename in
      case fs w filepath of
        None \<Rightarrow> scan_files x profile_path rest (w, st)
      | Some Unreadable \<Rightarrow>
          scan_files x profile_path rest
            (log_event (EvStderr (''Warning: Could not read '' @ filename @ '': '') OSError)
               (log_event (EvOpen filepath) w), st)
      | Some (Readable b) \<Rightarrow>
          (let w1 = log_event (EvOpen filepath) w;
               (es, failure) = snss_read x file_type b;
               st' = scan_entries es st
           in case failure of
                None \<Rightarrow> scan_files x profile_path rest (w1, st')
              | Some e \<Rightarrow>
                  scan_files x profile_path rest
                    (log_event (EvStderr (''Warning: Could not read '' @ filename @ '': '') e) w1,
                     st')))"

definition extract_tabs :: "ext \<Rightarrow> world \<Rightarrow> path \<Rightarrow> world \<times> (string \<times> string) list option" where
  "extract_tabs x w profile_path =
     (if \<not> snss_import x
      then (log_event (EvStderr ''Could not import SNSS reader: '' ImportError) w, None)
      else
        (let (w', tabs, seen_urls) = scan_files x profile_path session_files (w, [], {})
         in (w', if tabs \<noteq> [] then Some tabs else None)))"

subsection \<open>Escaping\<close>

text \<open>\<open>s.replace(c, r)\<close> for a one-character \<open>c\<close>.\<close>

definition replace_char :: "char \<Rightarrow> string \<Rightarrow> string \<Rightarrow> string" where
  "replace_char c r s = concat (map (\<lambda>a. if a = c then r else [a]) s)"

text \<open>\<open>html.escape(s, quote=True)\<close> of the standard library: five replacements, the
  ampersand first.\<close>

definition html_escape :: "string \<Rightarrow> string" where
  \<open>html_escape s =
     replace_char (CHR 0x27) ''&#x27;''
       (replace_char (CHR 0x22) ''&quot;''
         (replace_char CHR ''>'' ''&gt;''
           (replace_char CHR ''<'' ''&lt;''
             (replace_char CHR ''&'' ''&amp;'' s))))\<close>

text \<open>\<open>esc(text)\<close> is \<open>html.escape(str(text))\<close>; the callers below apply \<open>str\<close>
  (\<open>json_str\<close>, \<open>sql_str\<close>) to what they pass.\<close>

definition esc :: "string \<Rightarrow> string" where
  "esc text = html_escape text"

subsection \<open>Bookmarks extraction\<close>

definition extract_bookmarks :: "ext \<Rightarrow> world \<Rightarrow> path \<Rightarrow> world \<times> (error + json)" where
  "extract_bookmarks x w profile_path =
     (let bookmarks_file = path_join profile_path ''Bookmarks'' in
      case fs w bookmarks_file of
        None \<Rightarrow> (w, Inr JNull)
      | Some Unreadable \<Rightarrow> (log_event (EvOpen bookmarks_file) w, Inl OSError)
      | Some (Readable b) \<Rightarrow>
          (let w1 = log_event (EvOpen bookmarks_file) w in
           case json_load x b of
             Inl e \<Rightarrow> (w1, Inl e)
           | Inr (JObj kvs) \<Rightarrow> (w1, Inr (dict_get kvs ''roots'' (JObj [])))
           | Inr _ \<Rightarrow> (w1, Inl AttributeError)))"

text \<open>The tuples \<open>(depth, type, name, url)\<close> that \<open>walk_bookmarks\<close> yields; \<open>url\<close> is
  \<open>JNull\<close> (None) for a folder.\<close>

type_synonym bm_record = "nat \<times> string \<times> json \<times> json"

text \<open>
  \<open>walk_bookmarks\<close>, with the records a generator yields collected in a list. \<open>node.get\<close>
  raises AttributeError on anything but a dict. The loop over \<open>children\<close> iterates a list;
  iterating a dict or a string gives strings, on which the recursive call raises; None,
  a bool or a number is not iterable. The first exception ends the walk.
\<close>

function (sequential)
  walk_bookmarks :: "json \<Rightarrow> nat \<Rightarrow> error + bm_record list" and
  walk_children :: "json list \<Rightarrow> nat \<Rightarrow> error + bm_record list"
where
  "walk_bookmarks (JObj kvs) depth =
     (if dict_get kvs ''type'' JNull = JStr ''folder'' then
        (case dict_get kvs ''children'' (JArr []) of
           JArr children \<Rightarrow>
             (case walk_children children (depth + 1) of
                Inl e \<Rightarrow> Inl e
              | Inr rs \<Rightarrow>
                  Inr ((depth, ''folder'', dict_get kvs ''name'' (JStr ''Untitled''), JNull) # rs))
         | JObj items \<Rightarrow>
             (if items = []
              then Inr [(depth, ''folder'', dict_get kvs ''name'' (JStr ''Untitled''), JNull)]
              else Inl AttributeError)
         | JStr s \<Rightarrow>
             (if s = []
              then Inr [(depth, ''folder'', dict_get kvs ''name'' (JStr ''Untitled''), JNull)]
              else Inl AttributeError)
         | _ \<Rightarrow> Inl TypeError)
      else if dict_get kvs ''type'' JNull = JStr ''url'' then
        Inr [(depth, ''url'', dict_get kvs ''name'' (JStr ''Untitled''),
              dict_get kvs ''url'' (JStr []))]
      else Inr [])"
| "walk_bookmarks _ depth = Inl AttributeError"
| "walk_children [] depth = Inr []"
| "walk_children (child # rest) depth =
     (case walk_bookmarks child depth of
        Inl e \<Rightarrow> Inl e
      | Inr rs \<Rightarrow>
          (case walk_children rest depth of
             Inl e \<Rightarrow> Inl e
           | Inr rs' \<Rightarrow> Inr (rs @ rs')))"
  by pat_completeness auto

termination walk_bookmarks
proof -
  have sz: "size v < size (JObj kvs)" if "map_of kvs k = Some v" for kvs k and v :: json
    using that by (induction kvs) (auto split: if_splits)
  have ch: "size_list size children < size (JObj kvs)"
    if "dict_get kvs ''children'' (JArr []) = JArr children" for kvs children
  proof (cases "map_of kvs ''children''")
    case None
    with that show ?thesis by (simp add: dict_get_def)
  next
    case (Some v)
    with that have "v = JArr children" by (simp add: dict_get_def)
    with sz [OF Some] show ?thesis by simp
  qed
  show ?thesis
  proof (relation "measure (\<lambda>s. case s of Inl (n, d) \<Rightarrow> size n
                                          | Inr (ns, d) \<Rightarrow> size_list size ns)")
    show "wf (measure (\<lambda>s. case s of Inl (n, d) \<Rightarrow> size n
                                      | Inr (ns, d) \<Rightarrow> size_list size ns))"
      by simp
  qed (use ch in auto)
qed

subsection \<open>Dates: the arithmetic of the datetime module\<close>

text \<open>The proleptic Gregorian calendar of \<open>datetime\<close>: day 1 is 0001-01-01. The tables
  are read at months 1 to 12 only (Python's have -1 at index 0).\<close>

definition DAYS_IN_MONTH :: "nat list" where
  "DAYS_IN_MONTH = [0, 31, 28, 31, 30, 31, 30, 31, 31, 30, 31, 30, 31]"

definition DAYS_BEFORE_MONTH :: "nat list" where
  "DAYS_BEFORE_MONTH = [0, 0, 31, 59, 90, 120, 151, 181, 212, 243, 273, 304, 334]"

definition is_leap :: "nat \<Rightarrow> bool" where
  "is_leap year = (year mod 4 = 0 \<and> (year mod 100 \<noteq> 0 \<or> year mod 400 = 0))"

definition days_before_year :: "nat \<Rightarrow> nat" where
  "days_before_year year =
     (let y = year - 1 in y * 365 + y div 4 - y div 100 + y div 400)"


definition days_before_month :: "nat \<Rightarrow> nat \<Rightarrow> nat" where
  "days_before_month year month =
     DAYS_BEFORE_MONTH ! month + (if month > 2 \<and> is_leap year then 1 else 0)"

definition ymd2ord :: "nat \<Rightarrow> nat \<Rightarrow> nat \<Rightarrow> nat" where
  "ymd2ord year month day = days_before_year year + days_before_month year month + day"

definition MAXORDINAL :: nat where
  "MAXORDINAL = 3652059"

text \<open>\<open>_ord2ymd\<close>: the date of an ordinal, by 400-, 100-, 4- and 1-year cycles.\<close>

definition ord2ymd :: "nat \<Rightarrow> nat \<times> nat \<times> nat" where
  "ord2ymd ordinal =
     (let n = ordinal - 1;
          n400 = n div 146097; n = n mod 146097;
          n100 = n div 36524; n = n mod 36524;
          n4 = n div 1461; n = n mod 1461;
          n1 = n div 365; n = n mod 365;
          year = n400 * 400 + 1 + n100 * 100 + n4 * 4 + n1
      in if n1 = 4 \<or> n100 = 4 then (year - 1, 12, 31)
         else
           (let leapyear = (n1 = 3 \<and> (n4 \<noteq> 24 \<or> n100 = 3));
                month = (n + 50) div 32;
                preceding = DAYS_BEFORE_MONTH ! month + (if month > 2 \<and> leapyear then 1 else 0)
            in if preceding > n
               then (let month' = month - 1;
                         preceding' = preceding -
                           (DAYS_IN_MONTH ! month' + (if month' = 2 \<and> leapyear then 1 else 0))
                     in (year, month', n - preceding' + 1))
               else (year, month, n - preceding + 1)))"

record datetime =
  dt_year :: nat
  dt_month :: nat
  dt_day :: nat
  dt_hour :: nat
  dt_minute :: nat
  dt_second :: nat
  dt_microsecond :: nat

definition CHROME_EPOCH :: datetime where
  "CHROME_EPOCH = \<lparr>dt_year = 1601, dt_month = 1, dt_day = 1, dt_hour = 0, dt_minute = 0,
                    dt_second = 0, dt_microsecond = 0\<rparr>"

text \<open>A \<open>timedelta\<close> is its days, seconds and microseconds, normalised; the constructor
  raises OverflowError beyond 999999999 days.\<close>

definition timedelta :: "int \<Rightarrow> error + int \<times> int \<times> int" where
  "timedelta us =
     (let d = us div 86400000000; r = us mod 86400000000
      in if \<bar>d\<bar> > 999999999 then Inl OverflowError
         else Inr (d, r div 1000000, r mod 1000000))"

text \<open>\<open>timedelta(microseconds=v)\<close> on a column value: only a number is accepted.\<close>

fun timedelta_microseconds :: "sql_value \<Rightarrow> error + int \<times> int \<times> int" where
  "timedelta_microseconds (SqlInt us) = timedelta us"
| "timedelta_microseconds _ = Inl TypeError"

text \<open>\<open>datetime.__add__\<close>: the date and time as one timedelta from day 0, plus the other,
  and back to a date when the day is a valid ordinal.\<close>

definition datetime_add :: "datetime \<Rightarrow> int \<times> int \<times> int \<Rightarrow> error + datetime" where
  "datetime_add dt td =
     (case td of (days, seconds, microseconds) \<Rightarrow>
      (case timedelta
         (((int (ymd2ord (dt_year dt) (dt_month dt) (dt_day dt)) + days) * 86400
            + int (dt_hour dt) * 3600 + int (dt_minute dt) * 60 + int (dt_second dt) + seconds)
            * 1000000
          + int (dt_microsecond dt) + microseconds) of
         Inl e \<Rightarrow> Inl e
       | Inr (d, s, u) \<Rightarrow>
           (if 0 < d \<and> d \<le> int MAXORDINAL
            then (case ord2ymd (nat d) of (y, m, dd) \<Rightarrow>
                    Inr \<lparr>dt_year = y, dt_month = m, dt_day = dd,
                         dt_hour = nat s div 3600, dt_minute = (nat s mod 3600) div 60,
                         dt_second = (nat s mod 3600) mod 60, dt_microsecond = nat u\<rparr>)
            else Inl OverflowError)))"

text \<open>\<open>str(n).zfill(k)\<close> for the fields of \<open>strftime\<close>; the year is printed with
  four digits.\<close>

definition zfill :: "nat \<Rightarrow> string \<Rightarrow> string" where
  "zfill k s = replicate (k - length s) CHR ''0'' @ s"

definition strftime :: "datetime \<Rightarrow> string" where
  "strftime dt =
     zfill 4 (str_nat (dt_year dt)) @ ''-'' @ zfill 2 (str_nat (dt_month dt)) @ ''-''
       @ zfill 2 (str_nat (dt_day dt)) @ '' '' @ zfill 2 (str_nat (dt_hour dt)) @ '':''
       @ zfill 2 (str_nat (dt_minute dt)) @ '':'' @ zfill 2 (str_nat (dt_second dt))"

subsection \<open>History extraction\<close>

definition tmp_path :: path where
  "tmp_path = ''/tmp/chrome_recovery_history_copy''"

text \<open>The \<open>try\<close>/\<open>except Exception\<close> around the conversion of one timestamp.\<close>

definition timestamp_str :: "sql_value \<Rightarrow> string" where
  "timestamp_str timestamp =
     (case timedelta_microseconds timestamp of
        Inl e \<Rightarrow> ''Unknown''
      | Inr td \<Rightarrow>
          (case datetime_add CHROME_EPOCH td of
             Inl e \<Rightarrow> ''Unknown''
           | Inr dt \<Rightarrow> strftime dt))"

text \<open>One turn of the loop over the rows: \<open>(url, title or "", time_str)\<close>.\<close>

fun history_row :: "row \<Rightarrow> sql_value \<times> sql_value \<times> string" where
  "history_row (url, title, timestamp) =
     (url, if sql_truthy title then title else SqlText [], timestamp_str timestamp)"

text \<open>
  \<open>extract_history\<close>. \<open>shutil.copy2\<close> runs before the \<open>try\<close>: when it raises, nothing
  has been copied. The query reads the copy; the \<open>finally\<close> clause unlinks the copy
  whether the query returned or raised.
\<close>

definition extract_history ::
  "ext \<Rightarrow> world \<Rightarrow> path \<Rightarrow> nat \<Rightarrow> world \<times> (error + (sql_value \<times> sql_value \<times> string) list option)"
where
  "extract_history x w profile_path limit =
     (let history_file = path_join profile_path ''History'' in
      case fs w history_file of
        None \<Rightarrow> (w, Inr None)
      | Some Unreadable \<Rightarrow> (log_event (EvCopy history_file tmp_path) w, Inl OSError)
      | Some (Readable b) \<Rightarrow>
          (let w1 = log_event (EvCopy history_file tmp_path)
                      (w\<lparr>fs := (fs w)(tmp_path \<mapsto> Readable b)\<rparr>);
               w2 = log_event (EvConnect tmp_path) w1;
               queried = (case fs w2 tmp_path of
                            Some (Readable c) \<Rightarrow> sqlite_query x c limit
                          | _ \<Rightarrow> Inl DatabaseError);
               w3 = log_event (EvUnlink tmp_path) (w2\<lparr>fs := (fs w2)(tmp_path := None)\<rparr>)
           in case queried of
                Inl e \<Rightarrow> (w3, Inl e)
              | Inr rows \<Rightarrow> (w3, Inr (Some (map history_row rows)))))"

subsection \<open>The dashboard\<close>

text \<open>The first part appended: the fixed opening of the document, up to the start
  of the navigation bar, as the lines of the source's literal.\<close>

definition dashboard_head :: string where
  \<open>dashboard_head = join ''\<newline>''
     [''<!DOCTYPE html>'',
      ''<html lang="en">'',
      ''<head>'',
      ''<meta charset="UTF-8">'',
      ''<meta name="viewport" content="width=device-width, initial-scale=1.0">'',
      ''<title>Chrome Recovery</title>'',
      ''<style>'',
      ''  * { box-sizing: border-box; margin: 0; padding: 0; }'',
      ''  body {'',
      ''    font-family: -apple-system, BlinkMacSystemFont, "Segoe UI", Roboto, sans-serif;'',
      ''    max-width: 900px; margin: 40px auto; padding: 0 20px;'',
      ''    color: #333; background: #fafafa;'',
      ''  }'',
      ''  h1 { font-size: 28px; margin-bottom: 8px; }'',
      ''  .subtitle { color: #888; margin-bottom: 32px; }'',
      ''  h2 { font-size: 20px; margin: 32px 0 16px; padding-bottom: 8px; border-bottom: 2px solid #ddd; }'',
      ''  .tab-list, .history-list { list-style: none; }'',
      ''  .tab-list li, .history-list li {'',
      ''    padding: 8px 0; border-bottom: 1px solid #eee;'',
      ''  }'',
      ''  .tab-list a, .history-list a, .bookmark-link {'',
      ''    color: #1a73e8; text-decoration: none;'',
      ''  }'',
      ''  .tab-list a:hover, .history-list a:hover, .bookmark-link:hover {'',
      ''    text-decoration: underline;'',
      ''  }'',
      ''  .url-display { color: #888; font-size: 12px; display: block; overflow: hidden; text-overflow: ellipsis; white-space: nowrap; }'',
      ''  .timestamp { color: #888; font-size: 12px; margin-left: 8px; }'',
      ''  .folder { font-weight: 600; margin-top: 12px; padding: 4px 0; }'',
      ''  .bookmark-item { padding: 3px 0; }'',
      ''  .indent-1 { padding-left: 20px; }'',
      ''  .indent-2 { padding-left: 40px; }'',
      ''  .indent-3 { padding-left: 60px; }'',
      ''  .indent-4 { padding-left: 80px; }'',
      ''  .indent-5 { padding-left: 100px; }'',
      ''  .section-count { color: #888; font-weight: normal; font-size: 14px; }'',
      ''  .empty-note { color: #999; font-style: italic; padding: 12px 0; }'',
      ''  nav { margin-bottom: 24px; }'',
      ''  nav a { margin-right: 16px; color: #1a73e8; text-decoration: none; font-weight: 500; }'',
      ''  nav a:hover { text-decoration: underline; }'',
      ''</style>'',
      ''</head>'',
      ''<body>'',
      ''<h1>Chrome Recovery</h1>'',
      ''<p class="subtitle">Recovered from Chrome profile data</p>'',
      ''<nav>'']\<close>

definition write_file :: "world \<Rightarrow> path \<Rightarrow> string \<Rightarrow> world" where
  "write_file w p text = log_event (EvWrite p text) (w\<lparr>fs := (fs w)(p \<mapsto> Readable text)\<rparr>)"

text \<open>The navigation links.\<close>

definition nav_links :: "'a option \<Rightarrow> 'b option \<Rightarrow> string list" where
  \<open>nav_links tabs history =
     (if tabs \<noteq> None then [''<a href="#tabs">Open Tabs</a>''] else [])
     @ [''<a href="#bookmarks">Bookmarks</a>'']
     @ (if history \<noteq> None then [''<a href="#history">History</a>''] else [])\<close>

text \<open>The tabs section.\<close>

fun tab_item :: "string \<times> string \<Rightarrow> string" where
  \<open>tab_item (url, title) =
     (let display_title = (if title \<noteq> [] then esc title else esc url)
      in ''<li><a href="'' @ esc url @ ''">'' @ display_title @ ''</a>''
         @ ''<span class="url-display">'' @ esc url @ ''</span></li>'')\<close>

fun tabs_section :: "(string \<times> string) list option \<Rightarrow> string list" where
  \<open>tabs_section (Some tabs) =
     [''<h2 id="tabs">Open Tabs <span class="section-count">('' @ str_nat (length tabs)
        @ '')</span></h2>'']
     @ (if tabs \<noteq> []
        then [''<ul class="tab-list">''] @ map tab_item tabs @ [''</ul>'']
        else [''<p class="empty-note">No open tabs found.</p>''])\<close>
| \<open>tabs_section None =
     [''<h2 id="tabs">Open Tabs</h2>'',
      ''<p class="empty-note">Could not recover open tabs from session files.</p>'']\<close>

text \<open>The bookmarks section: the body of the inner loop, the inner loop over the records
  of one root, and the outer loop over the roots, with \<open>bookmark_count\<close> and
  \<open>bookmark_parts\<close> as the state.\<close>

fun bookmark_part :: "ext \<Rightarrow> bm_record \<Rightarrow> string" where
  \<open>bookmark_part x (depth, node_type, name, url) =
     (let indent = min depth 5 in
      if node_type = ''folder''
      then ''<div class="folder indent-'' @ str_nat indent @ ''">'' @ esc (json_str x name)
           @ ''</div>''
      else ''<div class="bookmark-item indent-'' @ str_nat indent @ ''">''
           @ ''<a class="bookmark-link" href="'' @ esc (json_str x url) @ ''">''
           @ esc (json_str x name) @ ''</a></div>'')\<close>

fun bookmark_rows :: "ext \<Rightarrow> bm_record list \<Rightarrow> nat \<times> string list \<Rightarrow> nat \<times> string list" where
  "bookmark_rows x [] acc = acc"
| "bookmark_rows x ((depth, node_type, name, url) # rs) (bookmark_count, bookmark_parts) =
     (if node_type = ''folder''
      then bookmark_rows x rs
             (bookmark_count, bookmark_parts @ [bookmark_part x (depth, node_type, name, url)])
      else bookmark_rows x rs
             (bookmark_count + 1,
              bookmark_parts @ [bookmark_part x (depth, node_type, name, url)]))"

definition internal_root :: "string \<Rightarrow> bool" where
  "internal_root root_name = (root_name \<in> set [''synced'', ''sync_transaction_version''])"

fun dashboard_roots ::
  "ext \<Rightarrow> (string \<times> json) list \<Rightarrow> nat \<times> string list \<Rightarrow> error + nat \<times> string list"
where
  "dashboard_roots x [] acc = Inr acc"
| "dashboard_roots x ((root_name, root_node) # rest) acc =
     (if internal_root root_name then dashboard_roots x rest acc
      else case walk_bookmarks root_node 0 of
             Inl e \<Rightarrow> Inl e
           | Inr rs \<Rightarrow> dashboard_roots x rest (bookmark_rows x rs acc))"

text \<open>\<open>bookmarks_roots.items()\<close> raises AttributeError on a true value that is not a dict.\<close>

definition bookmarks_section :: "ext \<Rightarrow> json \<Rightarrow> error + string list" where
  \<open>bookmarks_section x bookmarks_roots =
     (if json_truthy bookmarks_roots then
        (case bookmarks_roots of
           JObj items \<Rightarrow>
             (case dashboard_roots x items (0, []) of
                Inl e \<Rightarrow> Inl e
              | Inr (bookmark_count, bookmark_parts) \<Rightarrow>
                  Inr ([''<h2 id="bookmarks">Bookmarks</h2>'',
                        ''<p class="section-count">'' @ str_nat bookmark_count
                          @ '' bookmarks</p>'']
                       @ bookmark_parts))
         | _ \<Rightarrow> Inl AttributeError)
      else Inr [''<h2 id="bookmarks">Bookmarks</h2>'',
                ''<p class="empty-note">No bookmarks found.</p>''])\<close>

text \<open>The history section.\<close>

fun history_item :: "sql_value \<times> sql_value \<times> string \<Rightarrow> string" where
  \<open>history_item (url, title, time_str) =
     (let display_title = (if sql_truthy title then esc (sql_str title) else esc (sql_str url))
      in ''<li><a href="'' @ esc (sql_str url) @ ''">'' @ display_title @ ''</a>''
         @ ''<span class="timestamp">'' @ esc time_str @ ''</span>''
         @ ''<span class="url-display">'' @ esc (sql_str url) @ ''</span></li>'')\<close>

fun history_section :: "(sql_value \<times> sql_value \<times> string) list option \<Rightarrow> string list" where
  \<open>history_section (Some history) =
     [''<h2 id="history">Browsing History <span class="section-count">(''
        @ str_nat (length history) @ '')</span></h2>'']
     @ (if history \<noteq> []
        then [''<ul class="history-list">''] @ map history_item history @ [''</ul>'']
        else [''<p class="empty-note">No history entries found.</p>''])\<close>
| \<open>history_section None =
     [''<h2 id="history">Browsing History</h2>'',
      ''<p class="empty-note">Could not recover browsing history.</p>'']\<close>

text \<open>All the parts of the dashboard, in the order they are appended.\<close>

definition dashboard_parts ::
  "ext \<Rightarrow> (string \<times> string) list option \<Rightarrow> json \<Rightarrow>
   (sql_value \<times> sql_value \<times> string) list option \<Rightarrow> error + string list"
where
  \<open>dashboard_parts x tabs bookmarks_roots history =
     (case bookmarks_section x bookmarks_roots of
        Inl e \<Rightarrow> Inl e
      | Inr bookmarks \<Rightarrow>
          Inr ([dashboard_head] @ nav_links tabs history @ [''</nav>'']
               @ tabs_section tabs @ bookmarks @ history_section history
               @ [''</body></html>'']))\<close>

text \<open>\<open>generate_dashboard\<close>: the file is written once all the parts are there, so an
  exception while they are built leaves no file.\<close>

definition generate_dashboard ::
  "ext \<Rightarrow> world \<Rightarrow> (string \<times> string) list option \<Rightarrow> json \<Rightarrow>
   (sql_value \<times> sql_value \<times> string) list option \<Rightarrow> path \<Rightarrow> world \<times> (error + unit)"
where
  "generate_dashboard x w tabs bookmarks_roots history output_path =
     (case dashboard_parts x tabs bookmarks_roots history of
        Inl e \<Rightarrow> (w, Inl e)
      | Inr parts \<Rightarrow> (write_file w output_path (join ''\<newline>'' parts), Inr ()))"

subsection \<open>The Netscape bookmarks export\<close>

text \<open>\<open>_write_netscape_node\<close> appends to \<open>parts\<close>; the list is passed in and returned.\<close>

function (sequential)
  write_netscape_node :: "ext \<Rightarrow> json \<Rightarrow> string list \<Rightarrow> nat \<Rightarrow> error + string list" and
  write_netscape_children :: "ext \<Rightarrow> json list \<Rightarrow> string list \<Rightarrow> nat \<Rightarrow> error + string list"
where
  \<open>write_netscape_node x (JObj kvs) parts indent =
     (let pre = concat (replicate indent ''    '') in
      if dict_get kvs ''type'' JNull = JStr ''folder'' then
        (let parts1 = parts
               @ [pre @ ''<DT><H3>'' @ esc (json_str x (dict_get kvs ''name'' (JStr ''Untitled'')))
                    @ ''</H3>'',
                  pre @ ''<DL><p>'']
         in case dict_get kvs ''children'' (JArr []) of
              JArr children \<Rightarrow>
                (case write_netscape_children x children parts1 (indent + 1) of
                   Inl e \<Rightarrow> Inl e
                 | Inr parts2 \<Rightarrow> Inr (parts2 @ [pre @ ''</DL><p>'']))
            | JObj items \<Rightarrow>
                (if items = [] then Inr (parts1 @ [pre @ ''</DL><p>'']) else Inl AttributeError)
            | JStr s \<Rightarrow>
                (if s = [] then Inr (parts1 @ [pre @ ''</DL><p>'']) else Inl AttributeError)
            | _ \<Rightarrow> Inl TypeError)
      else if dict_get kvs ''type'' JNull = JStr ''url'' then
        (let url = dict_get kvs ''url'' (JStr []);
             name = dict_get kvs ''name'' (JStr ''Untitled'')
         in Inr (parts @ [pre @ ''<DT><A HREF="'' @ esc (json_str x url) @ ''">''
                            @ esc (json_str x name) @ ''</A>'']))
      else Inr parts)\<close>
| "write_netscape_node x _ parts indent = Inl AttributeError"
| "write_netscape_children x [] parts indent = Inr parts"
| "write_netscape_children x (child # rest) parts indent =
     (case write_netscape_node x child parts indent of
        Inl e \<Rightarrow> Inl e
      | Inr parts' \<Rightarrow> write_netscape_children x rest parts' indent)"
  by pat_completeness auto

termination write_netscape_node
proof -
  have sz: "size v < size (JObj kvs)" if "map_of kvs k = Some v" for kvs k and v :: json
    using that by (induction kvs) (auto split: if_splits)
  have ch: "size_list size children < size (JObj kvs)"
    if "dict_get kvs ''children'' (JArr []) = JArr children" for kvs children
  proof (cases "map_of kvs ''children''")
    case None
    with that show ?thesis by (simp add: dict_get_def)
  next
    case (Some v)
    with that have "v = JArr children" by (simp add: dict_get_def)
    with sz [OF Some] show ?thesis by simp
  qed
  show ?thesis
  proof (relation "measure (\<lambda>s. case s of Inl (x, n, ps, i) \<Rightarrow> size n
                                          | Inr (x, ns, ps, i) \<Rightarrow> size_list size ns)")
    show "wf (measure (\<lambda>s. case s of Inl (x, n, ps, i) \<Rightarrow> size n
                                      | Inr (x, ns, ps, i) \<Rightarrow> size_list size ns))"
      by simp
  qed (use ch in auto)
qed

text \<open>The loop over the roots in \<open>generate_importable_bookmarks\<close>.\<close>

fun netscape_roots ::
  "ext \<Rightarrow> (string \<times> json) list \<Rightarrow> string list \<Rightarrow> error + string list"
where
  "netscape_roots x [] parts = Inr parts"
| "netscape_roots x ((root_name, root_node) # rest) parts =
     (if internal_root root_name then netscape_roots x rest parts
      else case write_netscape_node x root_node parts 1 of
             Inl e \<Rightarrow> Inl e
           | Inr parts' \<Rightarrow> netscape_roots x rest parts')"

definition netscape_head :: "string list" where
  \<open>netscape_head =
     [''<!DOCTYPE NETSCAPE-Bookmark-file-1>'',
      ''<!-- This is an automatically generated file.'',
      ''     It will be read and overwritten.'',
      ''     DO NOT EDIT! -->'',
      ''<META HTTP-EQUIV="Content-Type" CONTENT="text/html; charset=UTF-8">'',
      ''<TITLE>Bookmarks</TITLE>'',
      ''<H1>Bookmarks</H1>'',
      ''<DL><p>'']\<close>

definition netscape_parts :: "ext \<Rightarrow> json \<Rightarrow> error + string list" where
  "netscape_parts x bookmarks_roots =
     (case (if json_truthy bookmarks_roots then
              (case bookmarks_roots of
                 JObj items \<Rightarrow> netscape_roots x items netscape_head
               | _ \<Rightarrow> Inl AttributeError)
            else Inr netscape_head) of
        Inl e \<Rightarrow> Inl e
      | Inr parts \<Rightarrow> Inr (parts @ [''</DL><p>'']))"

definition generate_importable_bookmarks ::
  "ext \<Rightarrow> world \<Rightarrow> json \<Rightarrow> path \<Rightarrow> world \<times> (error + unit)"
where
  "generate_importable_bookmarks x w bookmarks_roots output_path =
     (case netscape_parts x bookmarks_roots of
        Inl e \<Rightarrow> (w, Inl e)
      | Inr parts \<Rightarrow> (write_file w output_path (join ''\<newline>'' parts), Inr ()))"

subsection \<open>Main\<close>

datatype outcome = Exit int | Raised error | Returned

definition show_alert :: "string \<Rightarrow> string \<Rightarrow> string \<Rightarrow> world \<Rightarrow> world" where
  "show_alert title message icon w = log_event (EvAlert title message icon) w"

definition reveal_in_finder :: "path \<Rightarrow> world \<Rightarrow> world" where
  "reveal_in_finder p w = log_event (EvReveal p) w"

text \<open>The text of the completion dialog.\<close>

definition summary_message ::
  "(string \<times> string) list option \<Rightarrow> json \<Rightarrow> (sql_value \<times> sql_value \<times> string) list option \<Rightarrow> string"
where
  "summary_message tabs bookmarks_roots history =
     (let recovered =
            (case tabs of
               Some ts \<Rightarrow> (if ts \<noteq> [] then [str_nat (length ts) @ '' open tabs''] else [])
             | None \<Rightarrow> [])
            @ (if json_truthy bookmarks_roots then [''bookmarks''] else [])
            @ (case history of
                 Some hs \<Rightarrow> (if hs \<noteq> [] then [str_nat (length hs) @ '' history entries''] else [])
               | None \<Rightarrow> []);
          summary = (if recovered \<noteq> [] then ''Recovered: '' @ join '', '' recovered @ ''.''
                     else ''No data could be recovered from that profile.'');
          files_note = (if \<not> json_truthy bookmarks_roots then ''Dashboard saved to your Desktop.''
                        else ''Files saved to your Desktop.'')
      in summary @ '' '' @ files_note)"

text \<open>The text of the dialog shown when validation fails.\<close>

definition rejection_message :: "string list \<Rightarrow> string" where
  \<open>rejection_message missing =
     ''That folder doesn't look like a Chrome profile. ''
     @ ''We expected to find: '' @ join '', '' missing @ ''. ''
     @ ''Make sure you selected the folder that contains your Chrome data ''
     @ ''(usually named 'Default' or 'Profile 1').''\<close>

text \<open>
  \<open>main\<close>, in the three stretches its comments name. \<open>folder\<close> is what the folder picker
  returned and \<open>home\<close> is \<open>Path.home()\<close>. An exception that no handler catches ends the
  run: the \<open>Raised\<close> outcome.
\<close>

text \<open>"Determine output location", "Generate outputs" and "Summary message".\<close>

definition main_outputs ::
  "ext \<Rightarrow> path \<Rightarrow> world \<Rightarrow> (string \<times> string) list option \<Rightarrow> json \<Rightarrow>
   (sql_value \<times> sql_value \<times> string) list option \<Rightarrow> world \<times> outcome"
where
  "main_outputs x home w tabs bookmarks_roots history =
     (let desktop = (if path_exists w (path_join home ''Desktop'')
                     then path_join home ''Desktop'' else home);
          dashboard_path = path_join desktop ''Chrome Recovery.html'';
          bookmarks_path = path_join desktop ''Chrome Bookmarks.html''
      in case generate_dashboard x w tabs bookmarks_roots history dashboard_path of
           (w4, Inl e) \<Rightarrow> (w4, Raised e)
         | (w4, Inr u) \<Rightarrow>
             (case (if json_truthy bookmarks_roots
                    then generate_importable_bookmarks x w4 bookmarks_roots bookmarks_path
                    else (w4, Inr ())) of
                (w5, Inl e) \<Rightarrow> (w5, Raised e)
              | (w5, Inr u') \<Rightarrow>
                  (reveal_in_finder desktop
                     (show_alert ''Recovery Complete''
                        (summary_message tabs bookmarks_roots history) ''note'' w5),
                   Returned)))"

text \<open>"Extract data": the three extractors, in the source's order.\<close>

definition main_extract :: "ext \<Rightarrow> path \<Rightarrow> world \<Rightarrow> path \<Rightarrow> world \<times> outcome" where
  "main_extract x home w profile_path =
     (case extract_bookmarks x w profile_path of
        (w1, Inl e) \<Rightarrow> (w1, Raised e)
      | (w1, Inr bookmarks_roots) \<Rightarrow>
          (case extract_history x w1 profile_path 5000 of
             (w2, Inl e) \<Rightarrow> (w2, Raised e)
           | (w2, Inr history) \<Rightarrow>
               (case extract_tabs x w2 profile_path of
                  (w3, tabs) \<Rightarrow> main_outputs x home w3 tabs bookmarks_roots history)))"

text \<open>"Pick folder" and "Validate".\<close>

definition main :: "ext \<Rightarrow> string option \<Rightarrow> path \<Rightarrow> world \<Rightarrow> world \<times> outcome" where
  "main x folder home w =
     (case folder of
        None \<Rightarrow> (w, Exit 0)
      | Some profile_path \<Rightarrow>
          if profile_path = [] then (w, Exit 0)
          else
            (case validate_profile w profile_path of (ok, missing) \<Rightarrow>
             if \<not> ok then
               (show_alert ''Not a Chrome Profile'' (rejection_message missing) ''caution'' w,
                Exit 1)
             else main_extract x home w profile_path))"

section \<open>Vocabulary of the properties\<close>

subsection \<open>The navigation records of a profile, in priority order\<close>

text \<open>What one candidate file contributes: the entries its iteration yields (up to the
  exception, if it raises); nothing when the file is missing or cannot be opened.\<close>

definition file_entries :: "ext \<Rightarrow> world \<Rightarrow> path \<Rightarrow> string \<times> SnssFileType \<Rightarrow> entry list" where
  "file_entries x w profile_path c =
     (case fs w (path_join profile_path (fst c)) of
        Some (Readable b) \<Rightarrow> fst (snss_read x (snd c) b)
      | _ \<Rightarrow> [])"

definition candidate_entries :: "ext \<Rightarrow> world \<Rightarrow> path \<Rightarrow> entry list" where
  "candidate_entries x w profile_path =
     concat (map (file_entries x w profile_path)
       [(''Current Session'', Session), (''Last Session'', Session),
        (''Current Tabs'', Tab), (''Last Tabs'', Tab)])"

text \<open>The \<open>(url, title)\<close> pairs of the navigation entries, a missing title read as empty.\<close>

fun nav_records :: "entry list \<Rightarrow> (string \<times> string) list" where
  "nav_records [] = []"
| "nav_records (OtherCommand # es) = nav_records es"
| "nav_records (NavigationEntry url title # es) =
     (url, case title of None \<Rightarrow> [] | Some t \<Rightarrow> t) # nav_records es"

definition qualifying :: "string \<Rightarrow> bool" where
  "qualifying url = (url \<noteq> [] \<and> \<not> prefix ''chrome://'' url)"

text \<open>Order-preserving deduplication by URL: the first occurrence wins.\<close>

fun first_occurrences :: "string set \<Rightarrow> (string \<times> string) list \<Rightarrow> (string \<times> string) list" where
  "first_occurrences seen [] = []"
| "first_occurrences seen ((u, t) # rest) =
     (if u \<in> seen then first_occurrences seen rest
      else (u, t) # first_occurrences (insert u seen) rest)"

subsection \<open>What a run wrote\<close>

text \<open>The paths of the files written, in order, among a list of events.\<close>

fun written_paths :: "event list \<Rightarrow> path list" where
  "written_paths [] = []"
| "written_paths (EvWrite p text # evs) = p # written_paths evs"
| "written_paths (ev # evs) = written_paths evs"

subsection \<open>The bookmark tree in the two documents\<close>

text \<open>The root nodes that are traversed: all but the two internal names.\<close>

definition kept_roots :: "(string \<times> json) list \<Rightarrow> json list" where
  "kept_roots items =
     map snd (filter (\<lambda>(name, node). name \<noteq> ''synced'' \<and> name \<noteq> ''sync_transaction_version'')
                items)"

text \<open>The line of the Netscape document for one record of the walk, under roots written
  at indentation \<open>base\<close>; and the test that tells these lines from the \<open>DL\<close> lines that
  open and close a folder.\<close>

fun netscape_line :: "ext \<Rightarrow> nat \<Rightarrow> bm_record \<Rightarrow> string" where
  \<open>netscape_line x base (depth, node_type, name, url) =
     concat (replicate (base + depth) ''    '')
     @ (if node_type = ''folder''
        then ''<DT><H3>'' @ esc (json_str x name) @ ''</H3>''
        else ''<DT><A HREF="'' @ esc (json_str x url) @ ''">'' @ esc (json_str x name) @ ''</A>'')\<close>

definition is_entry_line :: "string \<Rightarrow> bool" where
  "is_entry_line s = prefix ''<DT>'' (dropWhile (\<lambda>c. c = CHR '' '') s)"

section \<open>Example inputs\<close>

text \<open>Concrete libraries and worlds on which the theorems below are instantiated.\<close>

definition example_ext :: ext where
  "example_ext =
     \<lparr>json_load = (\<lambda>b. if b = ''{}'' then Inr (JObj []) else Inl JSONDecodeError),
      sqlite_query = (\<lambda>b n. if b = ''db''
                             then Inr (take n [(SqlText ''https://a.example/'', SqlNull, SqlInt 0)])
                             else Inl DatabaseError),
      snss_import = True,
      snss_read = (\<lambda>t b. ([], None)),
      py_repr = (\<lambda>v. ''[]'')\<rparr>"

definition tabs_ext :: ext where
  "tabs_ext = example_ext\<lparr>snss_read := (\<lambda>t b.
     if b = ''s1'' then
       ([NavigationEntry ''https://a.example/'' (Some ''A''), NavigationEntry ''chrome://settings'' None,
         OtherCommand, NavigationEntry ''https://a.example/'' (Some ''A again''),
         NavigationEntry [] (Some ''blank'')], None)
     else if b = ''s2'' then
       ([NavigationEntry ''https://b.example/'' None, NavigationEntry ''https://a.example/'' (Some ''late'')],
        Some DecodeError)
     else ([], None))\<rparr>"

definition tabs_world :: world where
  "tabs_world =
     \<lparr>fs = [''/p/Current Session'' \<mapsto> Readable ''s1'', ''/p/Last Tabs'' \<mapsto> Readable ''s2''],
      trace = []\<rparr>"

definition no_records_world :: world where
  "no_records_world = \<lparr>fs = [''/p/Current Session'' \<mapsto> Readable ''s0''], trace = []\<rparr>"




definition example_roots :: "(string \<times> json) list" where
  "example_roots =
     [(''bookmark_bar'',
       JObj [(''type'', JStr ''folder''), (''name'', JStr ''Bar''),
             (''children'',
              JArr [JObj [(''type'', JStr ''url''), (''name'', JStr ''Ex <1>''),
                          (''url'', JStr ''https://example.com'')]])]),
      (''synced'', JObj [(''type'', JStr ''folder''), (''name'', JStr ''Mobile'')]),
      (''sync_transaction_version'', JStr ''1'')]"

definition empty_world :: world where
  "empty_world = \<lparr>fs = Map.empty, trace = []\<rparr>"

section \<open>Properties\<close>

subsection \<open>Validation gates the run\<close>

lemma main_rejected:
  assumes "p \<noteq> []" "validate_profile w p = (False, missing)"
  shows "main x (Some p) home w =
           (log_event (EvAlert ''Not a Chrome Profile'' (rejection_message missing) ''caution'') w,
            Exit 1)"
  using assms by (simp add: main_def show_alert_def)

text \<open>
  C9. For every directory path, validation succeeds exactly when both \<open>Bookmarks\<close> and
  \<open>History\<close> exist in the directory, and the list returned holds exactly the marker names
  that are missing, in the order of \<open>EXPECTED_FILES\<close>. When validation fails, \<open>main\<close> exits with
  status 1: the file system is as it was (no output written) and the only thing done is
  the alert naming the missing files (nothing opened, copied or queried).
\<close>

theorem validate_profile_gate:
  "fst (validate_profile w p) =
     (path_exists w (path_join p ''Bookmarks'') \<and> path_exists w (path_join p ''History''))
   \<and> snd (validate_profile w p) =
     filter (\<lambda>f. \<not> path_exists w (path_join p f)) [''Bookmarks'', ''History'']
   \<and> (p \<noteq> [] \<and> \<not> fst (validate_profile w p) \<longrightarrow>
        snd (main x (Some p) home w) = Exit 1
        \<and> fs (fst (main x (Some p) home w)) = fs w
        \<and> trace (fst (main x (Some p) home w)) =
            trace w @ [EvAlert ''Not a Chrome Profile''
                         (rejection_message (snd (validate_profile w p))) ''caution''])"
proof (intro conjI impI)
  show "fst (validate_profile w p) =
     (path_exists w (path_join p ''Bookmarks'') \<and> path_exists w (path_join p ''History''))"
    by (simp add: validate_profile_def EXPECTED_FILES_def Let_def)
  show "snd (validate_profile w p) =
     filter (\<lambda>f. \<not> path_exists w (path_join p f)) [''Bookmarks'', ''History'']"
    by (simp add: validate_profile_def EXPECTED_FILES_def Let_def)
next
  assume a: "p \<noteq> [] \<and> \<not> fst (validate_profile w p)"
  then have "validate_profile w p = (False, snd (validate_profile w p))"
    by (cases "validate_profile w p") simp
  with a have
    m: "main x (Some p) home w =
          (log_event (EvAlert ''Not a Chrome Profile''
             (rejection_message (snd (validate_profile w p))) ''caution'') w, Exit 1)"
    using main_rejected by blast
  show "snd (main x (Some p) home w) = Exit 1"
    by (simp only: m snd_conv)
  show "fs (fst (main x (Some p) home w)) = fs w"
    by (simp only: m fst_conv) (simp add: log_event_def)
  show "trace (fst (main x (Some p) home w)) =
            trace w @ [EvAlert ''Not a Chrome Profile''
                         (rejection_message (snd (validate_profile w p))) ''caution'']"
    by (simp only: m fst_conv) (simp add: log_event_def)
qed

theorem validate_profile_gate_witness:
  "''/p'' \<noteq> [] \<and> \<not> fst (validate_profile empty_world ''/p'')
   \<and> snd (validate_profile empty_world ''/p'') = [''Bookmarks'', ''History'']
   \<and> snd (main example_ext (Some ''/p'') ''/home'' empty_world) = Exit 1
   \<and> fs (fst (main example_ext (Some ''/p'') ''/home'' empty_world)) = Map.empty"
  using validate_profile_gate [of empty_world "''/p''" example_ext "''/home''"]
  by (simp add: empty_world_def path_exists_def)

subsection \<open>Tabs: deduplication in priority order\<close>

lemma scan_entries_append:
  "scan_entries (es @ es') st = scan_entries es' (scan_entries es st)"
  by (induction es st rule: scan_entries.induct) (auto simp: Let_def)

lemma scan_entries_first_occurrences:
  "scan_entries es (tabs, seen) =
     (tabs @ first_occurrences seen (filter (\<lambda>r. qualifying (fst r)) (nav_records es)),
      seen \<union> fst ` set (first_occurrences seen (filter (\<lambda>r. qualifying (fst r)) (nav_records es))))"
proof (induction es "(tabs, seen)" arbitrary: tabs seen rule: scan_entries.induct)
  case 1
  then show ?case by simp
next
  case (2 es)
  then show ?case by simp
next
  case (3 url title es tabs seen_urls)
  then show ?case by (auto simp: Let_def qualifying_def)
qed

lemma fs_log_event [simp]: "fs (log_event e w) = fs w"
  by (simp add: log_event_def)

lemma file_entries_fs:
  "fs w' = fs w \<Longrightarrow> file_entries x w' p c = file_entries x w p c"
  by (simp add: file_entries_def)

lemma written_paths_append [simp]:
  "written_paths (evs @ evs') = written_paths evs @ written_paths evs'"
  by (induction evs rule: written_paths.induct) auto

lemma trace_log_event [simp]: "trace (log_event e w) = trace w @ [e]"
  by (simp add: log_event_def)

lemma scan_files_world_step:
  "\<exists>w'. fs w' = fs w \<and> written_paths (trace w') = written_paths (trace w) \<and>
     scan_files x p (c # rest) (w, st) =
       scan_files x p rest (w', scan_entries (file_entries x w p c) st)"
proof -
  obtain filename file_type where c: "c = (filename, file_type)" by (cases c)
  show ?thesis
  proof (cases "fs w (path_join p filename)")
    case None
    then show ?thesis by (intro exI [of _ w]) (simp add: c file_entries_def)
  next
    case (Some d)
    show ?thesis
    proof (cases d)
      case Unreadable
      with Some show ?thesis
        by (intro exI [of _ "log_event (EvStderr (''Warning: Could not read '' @ filename @ '': '') OSError)
               (log_event (EvOpen (path_join p filename)) w)"]) (simp add: c file_entries_def)
    next
      case (Readable b)
      obtain es failure where r: "snss_read x file_type b = (es, failure)"
        by (cases "snss_read x file_type b")
      show ?thesis
      proof (cases failure)
        case None
        with Some Readable r show ?thesis
          by (intro exI [of _ "log_event (EvOpen (path_join p filename)) w"])
             (simp add: c file_entries_def)
      next
        case (Some e)
        with \<open>fs w (path_join p filename) = Some d\<close> Readable r show ?thesis
          by (intro exI [of _ "log_event (EvStderr (''Warning: Could not read '' @ filename @ '': '') e)
                 (log_event (EvOpen (path_join p filename)) w)"])
             (simp add: c file_entries_def)
      qed
    qed
  qed
qed

lemma scan_files_entries:
  "snd (scan_files x p files (w, st)) = scan_entries (concat (map (file_entries x w p) files)) st"
proof (induction files arbitrary: w st)
  case Nil
  then show ?case by simp
next
  case (Cons c files)
  obtain w' where w': "fs w' = fs w"
    and step: "scan_files x p (c # files) (w, st) =
       scan_files x p files (w', scan_entries (file_entries x w p c) st)"
    using scan_files_world_step by blast
  have "map (file_entries x w' p) files = map (file_entries x w p) files"
    using file_entries_fs [OF w'] by simp
  then show ?case
    by (simp only: step Cons.IH) (simp add: scan_entries_append)
qed

lemma first_occurrences_fst:
  "fst ` set (first_occurrences seen xs) = fst ` set xs - seen"
  by (induction seen xs rule: first_occurrences.induct) auto

lemma first_occurrences_distinct:
  "distinct (map fst (first_occurrences seen xs))"
proof (induction seen xs rule: first_occurrences.induct)
  case (1 seen)
  then show ?case by simp
next
  case (2 seen u t rest)
  have "u \<notin> fst ` set (first_occurrences (insert u seen) rest)"
    by (simp add: first_occurrences_fst)
  with 2 show ?case by auto
qed

lemma first_occurrences_subseq:
  "subseq (first_occurrences seen xs) xs"
  by (induction seen xs rule: first_occurrences.induct) auto

lemma first_occurrences_find:
  "r \<in> set (first_occurrences seen xs) \<Longrightarrow> find (\<lambda>r'. fst r' = fst r) xs = Some r"
proof (induction seen xs rule: first_occurrences.induct)
  case (1 seen)
  then show ?case by simp
next
  case (2 seen u t rest)
  show ?case
  proof (cases "u \<in> seen")
    case True
    with 2 have r: "r \<in> set (first_occurrences seen rest)" by simp
    then have "fst r \<in> fst ` set rest - seen"
      using first_occurrences_fst [of seen rest] by blast
    with True have "fst r \<noteq> u" by blast
    with 2 True r show ?thesis by auto
  next
    case False
    show ?thesis
    proof (cases "r = (u, t)")
      case True
      then show ?thesis by simp
    next
      case neq: False
      with 2 False have r: "r \<in> set (first_occurrences (insert u seen) rest)" by simp
      then have "fst r \<in> fst ` set rest - insert u seen"
        using first_occurrences_fst [of "insert u seen" rest] by blast
      then have "fst r \<noteq> u" by blast
      with 2 False r show ?thesis by auto
    qed
  qed
qed

lemma find_filter_qualifying:
  "qualifying u \<Longrightarrow>
   find (\<lambda>r. fst r = u) (filter (\<lambda>r. qualifying (fst r)) xs) = find (\<lambda>r. fst r = u) xs"
  by (induction xs) auto

lemma extract_tabs_result:
  "snd (extract_tabs x w p) =
     (let ts = first_occurrences {} (filter (\<lambda>r. qualifying (fst r))
                 (nav_records (candidate_entries x w p)))
      in if snss_import x \<and> ts \<noteq> [] then Some ts else None)"
proof -
  have "snd (scan_files x p session_files (w, [], {})) =
          scan_entries (candidate_entries x w p) ([], {})"
    by (simp only: scan_files_entries candidate_entries_def session_files_def)
  then show ?thesis
    by (cases "scan_files x p session_files (w, [], {})")
       (auto simp: extract_tabs_def scan_entries_first_occurrences Let_def)
qed

text \<open>
  C4. Whatever the four candidate files hold, read in the order Current Session, Last
  Session, Current Tabs, Last Tabs: the tabs returned contain each URL at most once; no
  returned URL is empty or begins with \<open>chrome://\<close>; each returned pair is the first
  navigation record with its URL in that order; every URL of a navigation record that is
  neither empty nor internal is returned; and the tabs keep the order of the records.
\<close>

theorem tabs_deduplicated:
  assumes "snd (extract_tabs x w p) = Some ts"
  shows "distinct (map fst ts)
    \<and> (\<forall>r\<in>set ts. fst r \<noteq> [] \<and> \<not> prefix ''chrome://'' (fst r))
    \<and> (\<forall>r\<in>set ts. find (\<lambda>r'. fst r' = fst r) (nav_records (candidate_entries x w p)) = Some r)
    \<and> fst ` set ts = {u \<in> fst ` set (nav_records (candidate_entries x w p)).
                        u \<noteq> [] \<and> \<not> prefix ''chrome://'' u}
    \<and> subseq ts (nav_records (candidate_entries x w p))"
proof -
  define recs where "recs = nav_records (candidate_entries x w p)"
  define qs where "qs = filter (\<lambda>r. qualifying (fst r)) recs"
  have ts: "ts = first_occurrences {} qs"
    using assms unfolding extract_tabs_result qs_def recs_def
    by (simp add: Let_def split: if_splits)
  have fst_ts: "fst ` set ts = fst ` set qs"
    by (simp add: ts first_occurrences_fst)
  have q: "qualifying (fst r)" if "r \<in> set ts" for r
  proof -
    from that fst_ts have "fst r \<in> fst ` set qs" by blast
    then show ?thesis by (auto simp: qs_def)
  qed
  have 1: "distinct (map fst ts)"
    by (simp add: ts first_occurrences_distinct)
  have 2: "\<forall>r\<in>set ts. fst r \<noteq> [] \<and> \<not> prefix ''chrome://'' (fst r)"
    using q by (simp add: qualifying_def)
  have 3: "\<forall>r\<in>set ts. find (\<lambda>r'. fst r' = fst r) recs = Some r"
  proof
    fix r assume r: "r \<in> set ts"
    then have "find (\<lambda>r'. fst r' = fst r) qs = Some r"
      unfolding ts by (rule first_occurrences_find)
    then show "find (\<lambda>r'. fst r' = fst r) recs = Some r"
      by (simp add: qs_def find_filter_qualifying [OF q [OF r]])
  qed
  have 4: "fst ` set ts = {u \<in> fst ` set recs. u \<noteq> [] \<and> \<not> prefix ''chrome://'' u}"
    unfolding fst_ts qs_def by (auto simp: qualifying_def)
  have "subseq ts qs"
    by (simp add: ts first_occurrences_subseq)
  moreover have "subseq qs recs"
    by (simp add: qs_def)
  ultimately have 5: "subseq ts recs"
    by (rule subseq_order.order_trans)
  from 1 2 3 4 5 show ?thesis
    unfolding recs_def by blast
qed

lemma tabs_world_result:
  "snd (extract_tabs tabs_ext tabs_world ''/p'') =
     Some [(''https://a.example/'', ''A''), (''https://b.example/'', [])]"
  by (simp add: extract_tabs_def tabs_ext_def example_ext_def tabs_world_def session_files_def
      path_join_def log_event_def Let_def)

theorem tabs_deduplicated_witness:
  "snd (extract_tabs tabs_ext tabs_world ''/p'') =
     Some [(''https://a.example/'', ''A''), (''https://b.example/'', [])]
   \<and> find (\<lambda>r'. fst r' = ''https://a.example/'') (nav_records (candidate_entries tabs_ext tabs_world ''/p''))
       = Some (''https://a.example/'', ''A'')"
  using tabs_deduplicated [OF tabs_world_result] tabs_world_result by simp

text \<open>
  C1 (as stated, refuted). A profile whose Current Session file exists and decodes without
  error into zero entries: the extractor returns None, not an empty list.
\<close>

theorem tabs_present_but_empty_counterexample:
  "snss_import example_ext
   \<and> fs no_records_world (path_join ''/p'' ''Current Session'') = Some (Readable ''s0'')
   \<and> snss_read example_ext Session ''s0'' = ([], None)
   \<and> snd (extract_tabs example_ext no_records_world ''/p'') \<noteq> Some []
   \<and> snd (extract_tabs example_ext no_records_world ''/p'') = None"
  by (simp add: extract_tabs_def example_ext_def no_records_world_def session_files_def
      path_join_def log_event_def Let_def)

text \<open>
  C1 (amended). The extractor never returns an empty list. It returns None exactly when the
  reader cannot be imported or no navigation record of any candidate qualifies, also
  when candidates exist and decode successfully; otherwise it returns a non-empty list.
\<close>

theorem tabs_absent_when_nothing_collected:
  "snd (extract_tabs x w p) \<noteq> Some []
   \<and> (snd (extract_tabs x w p) = None \<longleftrightarrow>
        \<not> snss_import x
        \<or> (\<forall>r\<in>set (nav_records (candidate_entries x w p)). \<not> qualifying (fst r)))"
proof -
  define qs where
    "qs = filter (\<lambda>r. qualifying (fst r)) (nav_records (candidate_entries x w p))"
  have "first_occurrences {} qs = [] \<longleftrightarrow> qs = []"
    by (cases qs) auto
  moreover have "qs = [] \<longleftrightarrow>
      (\<forall>r\<in>set (nav_records (candidate_entries x w p)). \<not> qualifying (fst r))"
    by (simp add: qs_def filter_empty_conv)
  ultimately show ?thesis
    unfolding extract_tabs_result qs_def [symmetric] by (simp add: Let_def)
qed

theorem tabs_absent_when_nothing_collected_witness:
  "snss_import example_ext
   \<and> nav_records (candidate_entries example_ext no_records_world ''/p'') = []
   \<and> snd (extract_tabs example_ext no_records_world ''/p'') = None"
  using tabs_absent_when_nothing_collected [of example_ext no_records_world "''/p''"]
  by (simp add: example_ext_def candidate_entries_def file_entries_def no_records_world_def
      path_join_def)

subsection \<open>History: the temporary copy\<close>






subsection \<open>The run after validation\<close>












subsection \<open>Bookmarks without a roots key\<close>







subsection \<open>The navigation links of the dashboard\<close>

lemma dashboard_head_start: "\<exists>rest. dashboard_head = ''<!DOCTYPE html>'' @ rest"
  by (simp add: dashboard_head_def)

lemma dashboard_head_not_anchor: "\<not> prefix ''<a '' dashboard_head"
proof -
  obtain rest where h: "dashboard_head = ''<!DOCTYPE html>'' @ rest"
    using dashboard_head_start by blast
  show ?thesis by (simp add: h)
qed

lemma tabs_section_not_anchor: "s \<in> set (tabs_section tabs) \<Longrightarrow> \<not> prefix ''<a '' s"
  by (cases tabs) (auto simp: Let_def split: if_splits)

lemma history_section_not_anchor: "s \<in> set (history_section history) \<Longrightarrow> \<not> prefix ''<a '' s"
  by (cases history) (auto simp: Let_def split: if_splits)

lemma bookmark_part_not_anchor: "\<not> prefix ''<a '' (bookmark_part x r)"
  by (cases r) (simp add: Let_def)

lemma bookmark_rows_parts:
  "snd (bookmark_rows x rs (n, acc)) = acc @ map (bookmark_part x) rs"
  by (induction x rs "(n, acc)" arbitrary: n acc rule: bookmark_rows.induct) auto

lemma dashboard_roots_not_anchor:
  "dashboard_roots x items acc = Inr (n, ps) \<Longrightarrow>
   \<forall>s\<in>set (snd acc). \<not> prefix ''<a '' s \<Longrightarrow> \<forall>s\<in>set ps. \<not> prefix ''<a '' s"
proof (induction x items acc arbitrary: n ps rule: dashboard_roots.induct)
  case (1 x acc)
  then show ?case by auto
next
  case (2 x root_name root_node rest acc)
  show ?case
  proof (cases "internal_root root_name")
    case True
    with 2 show ?thesis by simp
  next
    case False
    with "2.prems" obtain rs where rs: "walk_bookmarks root_node 0 = Inr rs"
      by (auto split: sum.splits)
    obtain m a where acc: "acc = (m, a)" by (cases acc)
    have "\<forall>s\<in>set (snd (bookmark_rows x rs acc)). \<not> prefix ''<a '' s"
      using "2.prems"(2) bookmark_rows_parts [of x rs m a] bookmark_part_not_anchor
      by (auto simp: acc)
    with 2 False rs show ?thesis by simp
  qed
qed

lemma bookmarks_section_not_anchor:
  assumes "bookmarks_section x roots = Inr ps" "s \<in> set ps"
  shows "\<not> prefix ''<a '' s"
proof (cases "json_truthy roots")
  case False
  with assms show ?thesis by (auto simp: bookmarks_section_def)
next
  case True
  with assms obtain items n bps where
    "roots = JObj items" "dashboard_roots x items (0, []) = Inr (n, bps)"
    and ps: \<open>ps = [''<h2 id="bookmarks">Bookmarks</h2>'',
              ''<p class="section-count">'' @ str_nat n @ '' bookmarks</p>''] @ bps\<close>
    by (auto simp: bookmarks_section_def split: json.splits sum.splits)
  then have "\<forall>s\<in>set bps. \<not> prefix ''<a '' s"
    using dashboard_roots_not_anchor [of x items "(0, [])" n bps] by simp
  with assms(2) ps show ?thesis by auto
qed

text \<open>
  C3 (amended). Among the parts of the dashboard, the anchor to the tabs section is there
  exactly when the tabs are present (possibly empty), and the anchor to the history
  section exactly when the history is present; absent tabs and absent history show their
  "Could not recover" notice. The anchor to the bookmarks section is always there, and
  bookmarks that are absent or empty show "No bookmarks found.".
\<close>

theorem nav_links_follow_presence:
  assumes "dashboard_parts x tabs roots history = Inr parts"
  shows \<open>(''<a href="#tabs">Open Tabs</a>'' \<in> set parts \<longleftrightarrow> tabs \<noteq> None)
    \<and> (''<a href="#history">History</a>'' \<in> set parts \<longleftrightarrow> history \<noteq> None)
    \<and> ''<a href="#bookmarks">Bookmarks</a>'' \<in> set parts
    \<and> (tabs = None \<longrightarrow>
          ''<p class="empty-note">Could not recover open tabs from session files.</p>'' \<in> set parts)
    \<and> (history = None \<longrightarrow>
          ''<p class="empty-note">Could not recover browsing history.</p>'' \<in> set parts)
    \<and> (\<not> json_truthy roots \<longrightarrow>
          ''<p class="empty-note">No bookmarks found.</p>'' \<in> set parts)\<close>
proof -
  from assms obtain bs where bs: "bookmarks_section x roots = Inr bs"
    and parts: "parts = [dashboard_head] @ nav_links tabs history @ [''</nav>'']
               @ tabs_section tabs @ bs @ history_section history @ [''</body></html>'']"
    by (auto simp: dashboard_parts_def split: sum.splits)
  have other: "\<not> prefix ''<a '' s"
    if "s \<in> set ([dashboard_head] @ [''</nav>''] @ tabs_section tabs @ bs
                  @ history_section history @ [''</body></html>''])" for s
    using that dashboard_head_not_anchor tabs_section_not_anchor history_section_not_anchor
      bookmarks_section_not_anchor [OF bs]
    by auto
  have anchor: "s \<in> set parts \<longleftrightarrow> s \<in> set (nav_links tabs history)" if "prefix ''<a '' s" for s
    using that other unfolding parts by auto
  have 1: \<open>''<a href="#tabs">Open Tabs</a>'' \<in> set parts \<longleftrightarrow> tabs \<noteq> None\<close>
    by (subst anchor) (simp_all add: nav_links_def)
  have 2: \<open>''<a href="#history">History</a>'' \<in> set parts \<longleftrightarrow> history \<noteq> None\<close>
    by (subst anchor) (simp_all add: nav_links_def)
  have 3: \<open>''<a href="#bookmarks">Bookmarks</a>'' \<in> set parts\<close>
    by (subst anchor) (simp_all add: nav_links_def)
  have 4: \<open>tabs = None \<longrightarrow>
          ''<p class="empty-note">Could not recover open tabs from session files.</p>'' \<in> set parts\<close>
    by (simp add: parts)
  have 5: \<open>history = None \<longrightarrow>
          ''<p class="empty-note">Could not recover browsing history.</p>'' \<in> set parts\<close>
    by (simp add: parts)
  have 6: \<open>\<not> json_truthy roots \<longrightarrow>
          ''<p class="empty-note">No bookmarks found.</p>'' \<in> set parts\<close>
    using bs by (auto simp: parts bookmarks_section_def)
  from 1 2 3 4 5 6 show ?thesis by blast
qed

lemma absent_dashboard:
  \<open>dashboard_parts example_ext None JNull None =
     Inr [dashboard_head, ''<a href="#bookmarks">Bookmarks</a>'', ''</nav>'',
          ''<h2 id="tabs">Open Tabs</h2>'',
          ''<p class="empty-note">Could not recover open tabs from session files.</p>'',
          ''<h2 id="bookmarks">Bookmarks</h2>'',
          ''<p class="empty-note">No bookmarks found.</p>'',
          ''<h2 id="history">Browsing History</h2>'',
          ''<p class="empty-note">Could not recover browsing history.</p>'',
          ''</body></html>'']\<close>
  by (simp add: dashboard_parts_def bookmarks_section_def nav_links_def)

theorem nav_links_follow_presence_witness:
  \<open>''<a href="#tabs">Open Tabs</a>'' \<notin> set (projr (dashboard_parts example_ext None JNull None))
   \<and> ''<a href="#bookmarks">Bookmarks</a>'' \<in> set (projr (dashboard_parts example_ext None JNull None))\<close>
  using nav_links_follow_presence [OF absent_dashboard] absent_dashboard
  by simp

text \<open>
  C3 (as stated, refuted). With all three features absent, the bookmarks anchor is emitted
  all the same, and the bookmarks section shows "No bookmarks found.", not a "could not
  be recovered" notice.
\<close>

theorem nav_links_only_when_present_counterexample:
  \<open>''<a href="#bookmarks">Bookmarks</a>'' \<in> set (projr (dashboard_parts example_ext None JNull None))
   \<and> bookmarks_section example_ext JNull =
       Inr [''<h2 id="bookmarks">Bookmarks</h2>'', ''<p class="empty-note">No bookmarks found.</p>'']\<close>
  using absent_dashboard by (simp add: bookmarks_section_def)


subsection \<open>History: timestamps\<close>





















subsection \<open>Bookmarks: one traversal, two documents\<close>

lemma dropWhile_indent:
  "dropWhile (\<lambda>c. c = CHR '' '') (concat (replicate n ''    '') @ s)
     = dropWhile (\<lambda>c. c = CHR '' '') s"
  by (induction n) auto

lemma entry_line_simps [simp]:
  "is_entry_line (concat (replicate n ''    '') @ CHR ''<'' # CHR ''D'' # CHR ''T'' # CHR ''>'' # s)"
  "\<not> is_entry_line (concat (replicate n ''    '') @ ''<DL><p>'')"
  "\<not> is_entry_line (concat (replicate n ''    '') @ ''</DL><p>'')"
  by (simp_all add: is_entry_line_def dropWhile_indent)

lemma netscape_walk:
  "indent = base + d \<Longrightarrow>
   (case walk_bookmarks node d of
      Inl e \<Rightarrow> write_netscape_node x node parts indent = Inl e
    | Inr recs \<Rightarrow>
        (\<exists>lines. write_netscape_node x node parts indent = Inr (parts @ lines)
           \<and> filter is_entry_line lines = map (netscape_line x base) recs))"
  and netscape_walk_children:
  "indent = base + d \<Longrightarrow>
   (case walk_children children d of
      Inl e \<Rightarrow> write_netscape_children x children parts indent = Inl e
    | Inr recs \<Rightarrow>
        (\<exists>lines. write_netscape_children x children parts indent = Inr (parts @ lines)
           \<and> filter is_entry_line lines = map (netscape_line x base) recs))"
proof (induction x node parts indent and x children parts indent
    arbitrary: d base and d base
    rule: write_netscape_node_write_netscape_children.induct)
  case (1 x kvs parts indent)
  show ?case
  proof (cases "dict_get kvs ''type'' JNull = JStr ''folder''")
    case folder: True
    show ?thesis
    proof (cases "dict_get kvs ''children'' (JArr [])")
      case (JArr cs)
      have "indent + 1 = base + (d + 1)" using "1.prems" by simp
      from "1.IH" [OF refl folder refl JArr this]
      show ?thesis
        using folder JArr "1.prems"
        by (auto simp: Let_def split: sum.splits)
    qed (use folder "1.prems" in \<open>auto simp: Let_def\<close>)
  next
    case False
    then show ?thesis
      using "1.prems" by (auto simp: Let_def)
  qed
next
  case (4 x child rest parts indent)
  show ?case
  proof (cases "walk_bookmarks child d")
    case (Inl e)
    with "4.IH"(1) [OF "4.prems"] show ?thesis by simp
  next
    case (Inr rs)
    with "4.IH"(1) [OF "4.prems"] obtain lines where
      l: "write_netscape_node x child parts indent = Inr (parts @ lines)"
      "filter is_entry_line lines = map (netscape_line x base) rs"
      by auto
    from "4.IH"(2) [OF l(1) "4.prems", of ] Inr l show ?thesis
      by (auto split: sum.splits)
  qed
qed simp_all

lemma bookmark_rows_eq:
  "bookmark_rows x rs (n, acc) =
     (n + length (filter (\<lambda>r. fst (snd r) \<noteq> ''folder'') rs), acc @ map (bookmark_part x) rs)"
  by (induction x rs "(n, acc)" arbitrary: n acc rule: bookmark_rows.induct) auto

lemma kept_roots_Cons:
  "kept_roots ((name, node) # items) =
     (if internal_root name then kept_roots items else node # kept_roots items)"
  by (auto simp: kept_roots_def internal_root_def)

lemma kept_roots_Nil [simp]: "kept_roots [] = []"
  by (simp add: kept_roots_def)

lemma dashboard_roots_walk:
  "dashboard_roots x items (n, acc) =
     (case walk_children (kept_roots items) 0 of
        Inl e \<Rightarrow> Inl e
      | Inr recs \<Rightarrow>
          Inr (n + length (filter (\<lambda>r. fst (snd r) \<noteq> ''folder'') recs),
               acc @ map (bookmark_part x) recs))"
proof (induction items arbitrary: n acc)
  case Nil
  then show ?case by simp
next
  case (Cons item items)
  obtain name node where item: "item = (name, node)" by (cases item)
  show ?case
  proof (cases "internal_root name")
    case True
    then show ?thesis using Cons by (simp add: item kept_roots_Cons)
  next
    case False
    show ?thesis
    proof (cases "walk_bookmarks node 0")
      case (Inl e)
      with False show ?thesis by (simp add: item kept_roots_Cons)
    next
      case (Inr rs)
      with False Cons show ?thesis
        by (simp add: item kept_roots_Cons bookmark_rows_eq split: sum.splits)
    qed
  qed
qed

lemma netscape_roots_walk:
  "(case walk_children (kept_roots items) 0 of
      Inl e \<Rightarrow> netscape_roots x items parts = Inl e
    | Inr recs \<Rightarrow>
        (\<exists>lines. netscape_roots x items parts = Inr (parts @ lines)
           \<and> filter is_entry_line lines = map (netscape_line x 1) recs))"
proof (induction items arbitrary: parts)
  case Nil
  then show ?case by simp
next
  case (Cons item items)
  obtain name node where item: "item = (name, node)" by (cases item)
  show ?case
  proof (cases "internal_root name")
    case True
    then show ?thesis using Cons [of parts]
      by (auto simp: item kept_roots_Cons split: sum.splits)
  next
    case False
    show ?thesis
    proof (cases "walk_bookmarks node 0")
      case (Inl e)
      with False netscape_walk [where indent = 1 and base = 1 and d = 0 and node = node and x = x and parts = parts] show ?thesis
        by (auto simp: item kept_roots_Cons split: sum.splits)
    next
      case (Inr rs)
      with netscape_walk [where indent = 1 and base = 1 and d = 0 and node = node and x = x and parts = parts] obtain lines where
        l: "write_netscape_node x node parts 1 = Inr (parts @ lines)"
        "filter is_entry_line lines = map (netscape_line x 1) rs"
        by auto
      from Cons [of "parts @ lines"] False Inr l show ?thesis
        by (auto simp: item kept_roots_Cons split: sum.splits)
    qed
  qed
qed

lemma walk_children_concat:
  "walk_children children depth = Inr recs \<Longrightarrow>
   recs = concat (map (\<lambda>c. projr (walk_bookmarks c depth)) children)"
  by (induction children arbitrary: recs) (auto split: sum.splits)

lemma walk_folder:
  assumes "dict_get kvs ''type'' JNull = JStr ''folder''"
    "dict_get kvs ''children'' (JArr []) = JArr children"
    "walk_bookmarks (JObj kvs) depth = Inr recs"
  shows "\<exists>rs. walk_children children (depth + 1) = Inr rs
     \<and> recs = (depth, ''folder'', dict_get kvs ''name'' (JStr ''Untitled''), JNull) # rs"
  using assms by (auto split: sum.splits)

lemma netscape_parts_walk:
  assumes "items \<noteq> []"
  shows "(case walk_children (kept_roots items) 0 of
      Inl e \<Rightarrow> netscape_parts x (JObj items) = Inl e
    | Inr recs \<Rightarrow>
        (\<exists>lines. netscape_parts x (JObj items) = Inr (netscape_head @ lines @ [''</DL><p>''])
           \<and> filter is_entry_line lines = map (netscape_line x 1) recs))"
  using assms netscape_roots_walk [where items = items and x = x and parts = netscape_head]
  by (auto simp: netscape_parts_def split: sum.splits)

lemma bookmarks_section_walk:
  assumes "items \<noteq> []"
  shows \<open>bookmarks_section x (JObj items) =
    (case walk_children (kept_roots items) 0 of
       Inl e \<Rightarrow> Inl e
     | Inr recs \<Rightarrow>
         Inr ([''<h2 id="bookmarks">Bookmarks</h2>'',
               ''<p class="section-count">''
                 @ str_nat (length (filter (\<lambda>r. fst (snd r) \<noteq> ''folder'') recs))
                 @ '' bookmarks</p>'']
              @ map (bookmark_part x) recs))\<close>
  using assms by (simp add: bookmarks_section_def dashboard_roots_walk split: sum.splits)

text \<open>
  C7. For a non-empty mapping of roots, let the walk be \<open>walk_bookmarks\<close> applied to the
  roots in their order, leaving out exactly those named "synced" and
  "sync_transaction_version". If the walk raises, both renderers raise the same exception.
  Otherwise the dashboard's bookmark rows are the records of the walk, one row each, in
  order, and the entry lines of the Netscape document are the same records, one line
  each, in the same order. The walk is depth-first and pre-order: a folder yields its own
  record, then the records of its children, child by child in the order of the source.
\<close>

theorem renderers_share_traversal:
  assumes "items \<noteq> []"
  shows \<open>(\<forall>e. walk_children (kept_roots items) 0 = Inl e \<longrightarrow>
            bookmarks_section x (JObj items) = Inl e \<and> netscape_parts x (JObj items) = Inl e)
    \<and> (\<forall>recs. walk_children (kept_roots items) 0 = Inr recs \<longrightarrow>
          bookmarks_section x (JObj items) =
            Inr ([''<h2 id="bookmarks">Bookmarks</h2>'',
                  ''<p class="section-count">''
                    @ str_nat (length (filter (\<lambda>r. fst (snd r) \<noteq> ''folder'') recs))
                    @ '' bookmarks</p>'']
                 @ map (bookmark_part x) recs)
          \<and> (\<exists>lines. netscape_parts x (JObj items) =
                        Inr (netscape_head @ lines @ [''</DL><p>''])
                \<and> filter is_entry_line lines = map (netscape_line x 1) recs))
    \<and> (walk_children children depth = Inr rs \<longrightarrow>
          rs = concat (map (\<lambda>c. projr (walk_bookmarks c depth)) children))
    \<and> (dict_get kvs ''type'' JNull = JStr ''folder''
        \<and> dict_get kvs ''children'' (JArr []) = JArr children
        \<and> walk_bookmarks (JObj kvs) depth = Inr recs' \<longrightarrow>
          (\<exists>rs'. walk_children children (depth + 1) = Inr rs'
             \<and> recs' = (depth, ''folder'', dict_get kvs ''name'' (JStr ''Untitled''), JNull) # rs'))\<close>
proof (intro conjI allI impI)
  fix e assume e: "walk_children (kept_roots items) 0 = Inl e"
  show "bookmarks_section x (JObj items) = Inl e"
    by (simp add: bookmarks_section_walk [OF assms] e)
  show "netscape_parts x (JObj items) = Inl e"
    using netscape_parts_walk [OF assms, of x] e by simp
next
  fix recs assume r: "walk_children (kept_roots items) 0 = Inr recs"
  show \<open>bookmarks_section x (JObj items) =
            Inr ([''<h2 id="bookmarks">Bookmarks</h2>'',
                  ''<p class="section-count">''
                    @ str_nat (length (filter (\<lambda>r. fst (snd r) \<noteq> ''folder'') recs))
                    @ '' bookmarks</p>'']
                 @ map (bookmark_part x) recs)\<close>
    by (simp add: bookmarks_section_walk [OF assms] r)
  show "\<exists>lines. netscape_parts x (JObj items) = Inr (netscape_head @ lines @ [''</DL><p>''])
                \<and> filter is_entry_line lines = map (netscape_line x 1) recs"
    using netscape_parts_walk [OF assms, of x] r by simp
next
  assume "walk_children children depth = Inr rs"
  then show "rs = concat (map (\<lambda>c. projr (walk_bookmarks c depth)) children)"
    by (rule walk_children_concat)
next
  assume "dict_get kvs ''type'' JNull = JStr ''folder''
        \<and> dict_get kvs ''children'' (JArr []) = JArr children
        \<and> walk_bookmarks (JObj kvs) depth = Inr recs'"
  then show "\<exists>rs'. walk_children children (depth + 1) = Inr rs'
             \<and> recs' = (depth, ''folder'', dict_get kvs ''name'' (JStr ''Untitled''), JNull) # rs'"
    using walk_folder [of kvs children depth recs'] by blast
qed

lemma example_roots_walk:
  "example_roots \<noteq> []"
  "walk_children (kept_roots example_roots) 0 =
     Inr [(0, ''folder'', JStr ''Bar'', JNull),
          (1, ''url'', JStr ''Ex <1>'', JStr ''https://example.com'')]"
  by (simp_all add: example_roots_def kept_roots_def dict_get_def)

theorem renderers_share_traversal_witness:
  \<open>walk_children (kept_roots example_roots) 0 =
     Inr [(0, ''folder'', JStr ''Bar'', JNull),
          (1, ''url'', JStr ''Ex <1>'', JStr ''https://example.com'')]
   \<and> bookmarks_section example_ext (JObj example_roots) =
     Inr [''<h2 id="bookmarks">Bookmarks</h2>'',
          ''<p class="section-count">1 bookmarks</p>'',
          ''<div class="folder indent-0">Bar</div>'',
          ''<div class="bookmark-item indent-1"><a class="bookmark-link" href="https://example.com">Ex &lt;1&gt;</a></div>'']\<close>
  using renderers_share_traversal [OF example_roots_walk(1), where x = example_ext]
    example_roots_walk(2)
  by (simp add: esc_def html_escape_def replace_char_def str_nat.simps)

end
